theory Spec2Isabelle
  imports Complex_Main
begin

section \<open>ChordKey: the key model of KeyCommon.py\<close>

text \<open>
  A shallow embedding of \<^verbatim>\<open>ChordKey/KeyCommon.py\<close>: the sticky-behaviour enum, the
  label resolution of \<^verbatim>\<open>KeyCommon.configure_label\<close>, the id handling, the layer index,
  the colour cache of \<^verbatim>\<open>RectKeyCommon._get_color\<close> and the rectangle pipeline of
  \<^verbatim>\<open>RectKeyCommon.get_rect\<close>.

  Python exceptions are values of \<open>error\<close>; a function that can raise returns
  \<open>error + 'a\<close>, with \<open>Inl\<close> for the exception. Python's unbounded integers are
  \<open>int\<close>, its strings are \<open>string\<close>, its dictionaries are maps. Python floats are
  modelled by \<open>real\<close>: rounding is not part of the model.
\<close>

subsection \<open>Exceptions\<close>

text \<open>
  The exceptions the modelled code can raise. \<open>ConfigurationError\<close> is the error
  name the specification uses for a bad sticky-behaviour token; no path of the source
  raises it, it is here so that statements can mention it.
\<close>

datatype error =
    KeyError
  | ValueError
  | IndexError
  | AttributeError
  | AssertionError
  | ConfigurationError

subsection \<open>StickyBehavior\<close>

text \<open>
  \<^verbatim>\<open>
  class StickyBehavior:
      ( CYCLE, DOUBLE_CLICK, LATCH_ONLY, LOCK_ONLY, ) = tuple(range(4))
      values = {"cycle" : CYCLE, "dblclick" : DOUBLE_CLICK,
                "latch" : LATCH_ONLY, "lock" : LOCK_ONLY}
      @staticmethod
      def from_string(str_value):
          """ Raises KeyError """
          return StickyBehavior.values[str_value]
  \<close>
\<close>

datatype StickyBehavior = CYCLE | DOUBLE_CLICK | LATCH_ONLY | LOCK_ONLY

definition "values" :: "string \<rightharpoonup> StickyBehavior" where
  "values = [''cycle'' \<mapsto> CYCLE, ''dblclick'' \<mapsto> DOUBLE_CLICK,
             ''latch'' \<mapsto> LATCH_ONLY, ''lock'' \<mapsto> LOCK_ONLY]"

text \<open>Subscripting a dictionary with a missing key raises \<open>KeyError\<close>.\<close>

definition from_string :: "string \<Rightarrow> error + StickyBehavior" where
  "from_string str_value =
     (case values str_value of None \<Rightarrow> Inl KeyError | Some v \<Rightarrow> Inr v)"

subsection \<open>Modifier constants and the key\<close>

text \<open>
  \<^verbatim>\<open>Modifiers\<close> and \<^verbatim>\<open>LABEL_MODIFIERS\<close> are imported from \<^verbatim>\<open>ChordKey.utils\<close>, which
  is not part of the sources at hand: the functions below take the constants as a
  parameter. The masks are Python integers, \<^verbatim>\<open>&\<close> is the bitwise conjunction on \<open>int\<close>.
\<close>

record modifiers =
  SHIFT :: int
  CAPS :: int
  ALTGR :: int
  LABEL_MODIFIERS :: int

text \<open>
  The cache key of \<^verbatim>\<open>_get_color\<close>: the element name and six flags, in the source's
  order \<^verbatim>\<open>(element, prelight, pressed, active, locked, sensitive, scanned)\<close>. A colour
  is a Python list of floats such as \<^verbatim>\<open>[0.0, 0.0, 0.0, 1.0]\<close>; a Python value that may
  be \<^verbatim>\<open>None\<close> is an \<open>option\<close>.
\<close>

type_synonym color_key = "string \<times> bool \<times> bool \<times> bool \<times> bool \<times> bool \<times> bool"

type_synonym rgba = "real list"

text \<open>
  The attributes of a key object that the modelled methods read or write. \<open>key_id\<close>
  is the attribute \<^verbatim>\<open>id\<close>. The class defaults are \<^verbatim>\<open>theme_id = None\<close>,
  \<^verbatim>\<open>labels = None\<close>, \<^verbatim>\<open>label = ""\<close>, all flags \<^verbatim>\<open>False\<close>; \<^verbatim>\<open>RectKeyCommon.__init__\<close>
  sets \<^verbatim>\<open>colors = {}\<close>.
\<close>

record key =
  theme_id :: "string option"
  key_id :: string
  labels :: "(int \<rightharpoonup> string) option"
  label :: string
  prelight :: bool
  pressed :: bool
  active :: bool
  locked :: bool
  scanned :: bool
  sensitive :: bool
  colors :: "color_key \<rightharpoonup> rgba option"

subsection \<open>KeyCommon.configure_label\<close>

text \<open>
  \<^verbatim>\<open>
  def configure_label(self, mod_mask):
      labels = self.labels
      label = labels.get(mod_mask)
      if label is None:
          label = labels.get(mod_mask & LABEL_MODIFIERS)
      if label is None:
          # legacy fallback for 0.98 behavior and virtkey until 0.61.0
          if mod_mask & Modifiers.SHIFT:
              if mod_mask & Modifiers.ALTGR and 129 in labels:
                  label = labels[129]
              elif 1 in labels:
                  label = labels[1]
              elif 2 in labels:
                  label = labels[2]
          elif mod_mask & Modifiers.ALTGR and 128 in labels:
              label = labels[128]
          elif mod_mask & Modifiers.CAPS:  # CAPS lock
              if 2 in labels:
                  label = labels[2]
              elif 1 in labels:
                  label = labels[1]
      if label is None:
          label = labels.get(0)
      if label is None:
          label = ""
      self.label = label
  \<close>
  \<open>resolve_label\<close> is the body up to the assignment, for a dictionary \<open>label_map\<close>
  held by \<^verbatim>\<open>self.labels\<close>: the variable \<^verbatim>\<open>label\<close> is an \<open>option\<close> (\<open>None\<close> is Python's
  \<^verbatim>\<open>None\<close>), \<^verbatim>\<open>labels.get(k)\<close> is \<open>label_map k\<close> and never raises, \<^verbatim>\<open>k in labels\<close> is
  \<open>label_map k \<noteq> None\<close>, and an integer is true when it is not \<open>0\<close>. The assignment
  \<^verbatim>\<open>label = labels[k]\<close> is \<open>assign_item\<close>: the subscript raises \<open>KeyError\<close> when the
  key is missing, so the body returns an error or the label.
\<close>

definition assign_item :: "(int \<rightharpoonup> string) \<Rightarrow> int \<Rightarrow> error + string option" where
  "assign_item label_map k =
     (case label_map k of None \<Rightarrow> Inl KeyError | Some text \<Rightarrow> Inr (Some text))"

definition resolve_label :: "modifiers \<Rightarrow> (int \<rightharpoonup> string) \<Rightarrow> int \<Rightarrow> error + string" where
  "resolve_label M label_map mod_mask =
     (let label = label_map mod_mask;
          label = (if label = None then label_map (and mod_mask (LABEL_MODIFIERS M)) else label);
          legacy =
            (if label = None then
               (if and mod_mask (SHIFT M) \<noteq> 0 then
                  (if and mod_mask (ALTGR M) \<noteq> 0 \<and> label_map 129 \<noteq> None then
                     assign_item label_map 129
                   else if label_map 1 \<noteq> None then assign_item label_map 1
                   else if label_map 2 \<noteq> None then assign_item label_map 2
                   else Inr label)
                else if and mod_mask (ALTGR M) \<noteq> 0 \<and> label_map 128 \<noteq> None then
                  assign_item label_map 128
                else if and mod_mask (CAPS M) \<noteq> 0 then
                  (if label_map 2 \<noteq> None then assign_item label_map 2
                   else if label_map 1 \<noteq> None then assign_item label_map 1
                   else Inr label)
                else Inr label)
             else Inr label)
      in case legacy of
           Inl e \<Rightarrow> Inl e
         | Inr label \<Rightarrow>
             (let label = (if label = None then label_map 0 else label)
              in Inr (case label of None \<Rightarrow> [] | Some text \<Rightarrow> text)))"

text \<open>
  The method itself: \<^verbatim>\<open>self.labels\<close> is \<^verbatim>\<open>None\<close> until the layout loader assigns a
  dictionary, and \<^verbatim>\<open>None.get\<close> raises \<open>AttributeError\<close>; an error of the body is the
  error of the method; otherwise the resolved label is stored in \<^verbatim>\<open>self.label\<close>.
\<close>

definition configure_label :: "modifiers \<Rightarrow> key \<Rightarrow> int \<Rightarrow> error + key" where
  "configure_label M self mod_mask =
     (case labels self of
        None \<Rightarrow> Inl AttributeError
      | Some d \<Rightarrow>
          (case resolve_label M d mod_mask of
             Inl e \<Rightarrow> Inl e
           | Inr text \<Rightarrow> Inr (self\<lparr>label := text\<rparr>)))"


text \<open>
  The resolution order in the specification's words (section 4.1 and its design note):
  an ordered list of (condition, slot) pairs, the first pair whose condition holds and
  whose slot is present in the map gives the label, and the empty string is the result
  when no pair matches. It is compared with \<open>resolve_label\<close> below.
\<close>

fun first_present :: "(bool \<times> int) list \<Rightarrow> (int \<rightharpoonup> string) \<Rightarrow> string" where
  "first_present [] label_map = []"
| "first_present ((applies, slot) # rest) label_map =
     (case (if applies then label_map slot else None) of
        Some text \<Rightarrow> text
      | None \<Rightarrow> first_present rest label_map)"

definition label_priority :: "modifiers \<Rightarrow> int \<Rightarrow> (bool \<times> int) list" where
  "label_priority M mod_mask =
     (let shift = (and mod_mask (SHIFT M) \<noteq> 0);
          altgr = (and mod_mask (ALTGR M) \<noteq> 0);
          caps = (and mod_mask (CAPS M) \<noteq> 0)
      in [(True, mod_mask),
          (True, and mod_mask (LABEL_MODIFIERS M)),
          (shift \<and> altgr, 129),
          (shift, 1),
          (shift, 2),
          (\<not> shift \<and> altgr, 128),
          (\<not> shift \<and> caps, 2),
          (\<not> shift \<and> caps, 1),
          (True, 0)])"

definition resolve_label_spec :: "modifiers \<Rightarrow> (int \<rightharpoonup> string) \<Rightarrow> int \<Rightarrow> string" where
  "resolve_label_spec M label_map mod_mask =
     first_present (label_priority M mod_mask) label_map"

subsection \<open>KeyCommon.set_id and split_id\<close>

text \<open>
  \<^verbatim>\<open>str.split(sep)\<close> for a separator of one character: the pieces between the
  occurrences of the separator, in order; the result is never the empty list.
\<close>

fun split_on :: "char \<Rightarrow> string \<Rightarrow> string list" where
  "split_on sep [] = [[]]"
| "split_on sep (c # cs) =
     (if c = sep then [] # split_on sep cs
      else (case split_on sep cs of
              [] \<Rightarrow> [[c]]
            | piece # pieces \<Rightarrow> (c # piece) # pieces))"

text \<open>
  \<^verbatim>\<open>
  def set_id(self, value):
      self.theme_id, self.id = self.split_id(value)

  @staticmethod
  def split_id(value):
      theme_id = value
      id = value.split(".")[0]
      return theme_id, id
  \<close>
  The subscript \<^verbatim>\<open>[0]\<close> raises \<open>IndexError\<close> on an empty list.
\<close>

definition split_id :: "string \<Rightarrow> error + (string \<times> string)" where
  "split_id value =
     (let theme_id = value in
      case split_on (CHR ''.'') value of
        [] \<Rightarrow> Inl IndexError
      | ident # _ \<Rightarrow> Inr (theme_id, ident))"

definition set_id :: "key \<Rightarrow> string \<Rightarrow> error + key" where
  "set_id self value =
     (case split_id value of
        Inl e \<Rightarrow> Inl e
      | Inr (t, ident) \<Rightarrow> Inr (self\<lparr>theme_id := Some t, key_id := ident\<rparr>))"

subsection \<open>KeyCommon.is_layer_button and get_layer_index\<close>

text \<open>
  Python's \<^verbatim>\<open>int(s)\<close> for a string, base ten, on the characters a \<open>char\<close> can hold:
  white space (tab, line feed, vertical tab, form feed, carriage return, space, next
  line, no-break space) is stripped at both ends, one sign may follow, then decimal
  digits, where single underscores may stand between digits; anything else raises
  \<open>ValueError\<close>. So does a string with more digits than the interpreter's limit
  \<^verbatim>\<open>sys.get_int_max_str_digits()\<close>, the parameter \<open>max_str_digits\<close>: it is 4300 by default
  since CPython 3.11, and 0 where there is no limit. The limit counts the digits, leading
  zeros included, and neither sign, underscores nor white space.
\<close>

definition py_isspace :: "char \<Rightarrow> bool" where
  "py_isspace c \<longleftrightarrow>
     c \<in> set [CHR 0x09, CHR 0x0A, CHR 0x0B, CHR 0x0C, CHR 0x0D, CHR 0x20, CHR 0x85, CHR 0xA0]"

definition strip :: "string \<Rightarrow> string" where
  "strip s = rev (dropWhile py_isspace (rev (dropWhile py_isspace s)))"

definition is_digit :: "char \<Rightarrow> bool" where
  "is_digit c \<longleftrightarrow> c \<in> set ''0123456789''"

definition digit_val :: "char \<Rightarrow> nat" where
  "digit_val c = of_char c - 48"

fun more_digits :: "nat \<Rightarrow> string \<Rightarrow> nat option" where
  "more_digits acc [] = Some acc"
| "more_digits acc (c # cs) =
     (if is_digit c then more_digits (10 * acc + digit_val c) cs
      else if c = CHR ''_'' then
        (case cs of
           [] \<Rightarrow> None
         | d # ds \<Rightarrow> if is_digit d then more_digits (10 * acc + digit_val d) ds else None)
      else None)"

definition digits :: "string \<Rightarrow> nat option" where
  "digits s = (case s of [] \<Rightarrow> None
               | c # cs \<Rightarrow> if is_digit c then more_digits (digit_val c) cs else None)"

definition py_int :: "nat \<Rightarrow> string \<Rightarrow> error + int" where
  "py_int max_str_digits s =
     (let t = strip s;
          negative = (t \<noteq> [] \<and> hd t = CHR ''-'');
          signed = (t \<noteq> [] \<and> (hd t = CHR ''-'' \<or> hd t = CHR ''+''));
          body = (if signed then tl t else t)
      in case digits body of
           None \<Rightarrow> Inl ValueError
         | Some n \<Rightarrow>
             if 0 < max_str_digits \<and> max_str_digits < length (filter is_digit body)
             then Inl ValueError
             else Inr (if negative then - int n else int n))"

text \<open>
  What a decimal integer literal is, stated apart from the conversion: \<open>numeral_value\<close>
  is the number that a string of decimal digits denotes; \<open>digit_groups\<close> holds of a
  string whose pieces between underscores are non-empty strings of digits; and
  \<open>int_literal limit s n\<close> holds when \<open>s\<close> is white space, an optional sign, digit groups
  with no more digits than the limit (if there is one), and white space, and \<open>n\<close> is the
  signed number of its digits.
\<close>

definition numeral_value :: "string \<Rightarrow> nat" where
  "numeral_value ds = foldl (\<lambda>acc c. 10 * acc + digit_val c) 0 ds"

definition digit_groups :: "string \<Rightarrow> bool" where
  "digit_groups body \<longleftrightarrow>
     list_all (\<lambda>piece. piece \<noteq> [] \<and> list_all is_digit piece) (split_on (CHR ''_'') body)"

definition int_literal :: "nat \<Rightarrow> string \<Rightarrow> int \<Rightarrow> bool" where
  "int_literal limit s n \<longleftrightarrow>
     (\<exists>ws1 sgn body ws2.
        s = ws1 @ sgn @ body @ ws2 \<and>
        list_all py_isspace ws1 \<and> list_all py_isspace ws2 \<and>
        (sgn = [] \<or> sgn = ''+'' \<or> sgn = ''-'') \<and>
        digit_groups body \<and>
        (limit = 0 \<or> length (filter is_digit body) \<le> limit) \<and>
        n = (if sgn = ''-'' then - int (numeral_value (filter is_digit body))
             else int (numeral_value (filter is_digit body))))"

text \<open>
  \<^verbatim>\<open>
  def is_layer_button(self):
      return self.id.startswith("layer")

  def get_layer_index(self):
      assert(self.is_layer_button())
      return int(self.id[5:])
  \<close>
  An \<^verbatim>\<open>assert\<close> is checked unless the interpreter runs optimised (\<^verbatim>\<open>__debug__\<close> is
  false): \<open>debug\<close> is that flag. \<open>max_str_digits\<close> is the interpreter's digit limit for
  \<^verbatim>\<open>int\<close>.
\<close>

definition startswith :: "string \<Rightarrow> string \<Rightarrow> bool" where
  "startswith s prefix \<longleftrightarrow> take (length prefix) s = prefix"

definition is_layer_button :: "key \<Rightarrow> bool" where
  "is_layer_button self = startswith (key_id self) ''layer''"

definition get_layer_index :: "bool \<Rightarrow> nat \<Rightarrow> key \<Rightarrow> error + int" where
  "get_layer_index debug max_str_digits self =
     (if debug \<and> \<not> is_layer_button self then Inl AssertionError
      else py_int max_str_digits (drop 5 (key_id self)))"

subsection \<open>RectKeyCommon: construction and the colour cache\<close>

text \<open>
  \<^verbatim>\<open>RectKeyCommon.__init__(self, id, border_rect)\<close> sets \<^verbatim>\<open>self.id\<close> and
  \<^verbatim>\<open>self.colors = {}\<close>; the other attributes keep their class defaults. \<^verbatim>\<open>sensitive\<close>
  is inherited from \<^verbatim>\<open>LayoutItem\<close>, which is not among the sources: it starts
  \<open>True\<close> here. The rectangle goes to the layout context and is passed to the geometry
  functions below as an argument.
\<close>

definition RectKeyCommon :: "string \<Rightarrow> key" where
  "RectKeyCommon ident =
     \<lparr>theme_id = None, key_id = ident, labels = None, label = [],
      prelight = False, pressed = False, active = False, locked = False,
      scanned = False, sensitive = True, colors = Map.empty\<rparr>"

text \<open>
  \<^verbatim>\<open>
  def _get_color(self, element):
      color_key = (element, self.prelight, self.pressed,
                            self.active, self.locked,
                            self.sensitive, self.scanned)
      rgba = self.colors.get(color_key)
      if not rgba:
          if self.color_scheme:
              rgba = self.color_scheme.get_key_rgba(self, element)
          elif element == "label":
              rgba = [0.0, 0.0, 0.0, 1.0]
          else:
              rgba = [1.0, 1.0, 1.0, 1.0]
          self.colors[color_key] = rgba
      return rgba
  \<close>
  \<^verbatim>\<open>self.color_scheme\<close> is the theme collaborator or \<^verbatim>\<open>None\<close>; its method
  \<^verbatim>\<open>get_key_rgba(key, element)\<close> is not among the sources and is a parameter, a function
  that may return \<^verbatim>\<open>None\<close> (the specification's \<^verbatim>\<open>theme_lookup(key, role) -> RGBA | absent\<close>).
  \<^verbatim>\<open>not rgba\<close> is true for \<^verbatim>\<open>None\<close> and for an empty list.

  \<open>get_color\<close> returns the value, the key with its updated cache, and the calls of
  \<^verbatim>\<open>get_key_rgba\<close> it made, each recorded by the cache key of its arguments.
\<close>

type_synonym color_scheme = "key \<Rightarrow> string \<Rightarrow> rgba option"

definition truthy :: "rgba option \<Rightarrow> bool" where
  "truthy v = (case v of None \<Rightarrow> False | Some components \<Rightarrow> components \<noteq> [])"

definition color_key_of :: "key \<Rightarrow> string \<Rightarrow> color_key" where
  "color_key_of self element =
     (element, prelight self, pressed self, active self, locked self,
      sensitive self, scanned self)"

definition get_color ::
  "color_scheme option \<Rightarrow> key \<Rightarrow> string \<Rightarrow> rgba option \<times> key \<times> color_key list" where
  "get_color color_scheme self element =
     (let color_key = color_key_of self element;
          rgba = (case colors self color_key of None \<Rightarrow> None | Some stored \<Rightarrow> stored)
      in if \<not> truthy rgba then
           (case color_scheme of
              Some get_key_rgba \<Rightarrow>
                (let rgba = get_key_rgba self element
                 in (rgba, self\<lparr>colors := (colors self)(color_key \<mapsto> rgba)\<rparr>, [color_key]))
            | None \<Rightarrow>
                (let rgba = (if element = ''label'' then Some [0, 0, 0, 1]
                             else Some [1, 1, 1, 1])
                 in (rgba, self\<lparr>colors := (colors self)(color_key \<mapsto> rgba)\<rparr>, [])))
         else (rgba, self, []))"

text \<open>
  A sequence of colour queries on one key, as a renderer makes them: before each
  query the input handling has set the six flags, and the key has the colour scheme of
  that moment; nothing but \<open>get_color\<close> touches the cache. The results, the final key
  and all calls of \<^verbatim>\<open>get_key_rgba\<close> are collected in order.
\<close>

type_synonym flags = "bool \<times> bool \<times> bool \<times> bool \<times> bool \<times> bool"

fun set_flags :: "flags \<Rightarrow> key \<Rightarrow> key" where
  "set_flags (pl, pr, ac, lo, se, sc) self =
     self\<lparr>prelight := pl, pressed := pr, active := ac, locked := lo,
          sensitive := se, scanned := sc\<rparr>"

fun query_key :: "flags \<times> color_scheme option \<times> string \<Rightarrow> color_key" where
  "query_key ((pl, pr, ac, lo, se, sc), color_scheme, element) =
     (element, pl, pr, ac, lo, se, sc)"

fun get_colors ::
  "key \<Rightarrow> (flags \<times> color_scheme option \<times> string) list \<Rightarrow>
     rgba option list \<times> key \<times> color_key list" where
  "get_colors self [] = ([], self, [])"
| "get_colors self ((fl, color_scheme, element) # queries) =
     (case get_color color_scheme (set_flags fl self) element of
        (rgba, self1, calls1) \<Rightarrow>
          (case get_colors self1 queries of
             (rgbas, self2, calls2) \<Rightarrow> (rgba # rgbas, self2, calls1 @ calls2)))"

text \<open>
  The condition under which the cache behaves as a cache: the colour scheme, when the
  key has one, returns for no arguments a value that \<^verbatim>\<open>not rgba\<close> would take for a
  miss (\<^verbatim>\<open>None\<close> or an empty list).
\<close>

definition returns_colors :: "color_scheme option \<Rightarrow> bool" where
  "returns_colors color_scheme \<longleftrightarrow>
     (\<forall>get_key_rgba k e. color_scheme = Some get_key_rgba \<longrightarrow> truthy (get_key_rgba k e))"

subsection \<open>RectKeyCommon: rectangles\<close>

text \<open>
  \<^verbatim>\<open>Rect\<close> is a class of \<^verbatim>\<open>ChordKey.utils\<close> with the attributes \<^verbatim>\<open>x, y, w, h\<close>.
\<close>

datatype Rect = Rect (rect_x: real) (rect_y: real) (rect_w: real) (rect_h: real)

text \<open>
  Modelled from the spec: \<^verbatim>\<open>Rect.deflate(dx, dy)\<close> of \<^verbatim>\<open>ChordKey.utils\<close> is not among
  the sources. Section 4.2 of the specification: a deflate shrinks the rectangle
  symmetrically toward its centre by \<open>dx\<close> and \<open>dy\<close> on each side, and all deflate
  operations clamp to non-negative width and height, never inverting a rectangle.
\<close>

definition deflate :: "Rect \<Rightarrow> real \<Rightarrow> real \<Rightarrow> Rect" where
  "deflate rect dx dy =
     Rect (rect_x rect + dx) (rect_y rect + dy)
          (max 0 (rect_w rect - 2 * dx)) (max 0 (rect_h rect - 2 * dy))"

text \<open>
  The two values of \<^verbatim>\<open>config.theme_settings\<close> that the rectangle methods read.
\<close>

record theme_settings =
  key_style :: string
  key_size :: real

text \<open>
  \<^verbatim>\<open>
  @staticmethod
  def _apply_key_size(rect):
      """ shrink keys to key_size """
      size = config.theme_settings.key_size / 100.0
      bx = rect.w * (1.0 - size) / 2.0
      by = rect.h * (1.0 - size) / 2.0
      # keys with aspect < 1.0, e.g. click, move, number block + and enter
      if rect.h > rect.w:
          by = bx
      # keys with aspect > 1.0, e.g. space, shift
      if rect.h < rect.w:
          bx = by
      return rect.deflate(bx, by)
  \<close>
  \<open>key_size_borders\<close> is the pair \<^verbatim>\<open>(bx, by)\<close> at the \<^verbatim>\<open>return\<close>.
\<close>

definition key_size_borders :: "theme_settings \<Rightarrow> Rect \<Rightarrow> real \<times> real" where
  "key_size_borders config rect =
     (let size = key_size config / 100;
          bx = rect_w rect * (1 - size) / 2;
          by = rect_h rect * (1 - size) / 2;
          by = (if rect_h rect > rect_w rect then bx else by);
          bx = (if rect_h rect < rect_w rect then by else bx)
      in (bx, by))"

definition apply_key_size :: "theme_settings \<Rightarrow> Rect \<Rightarrow> Rect" where
  "apply_key_size config rect =
     (case key_size_borders config rect of (bx, by) \<Rightarrow> deflate rect bx by)"

text \<open>
  \<^verbatim>\<open>get_fullsize_rect\<close> returns \<^verbatim>\<open>LayoutItem.get_rect(self)\<close>, which is not among the
  sources: the rectangle it returns is the argument \<open>fullsize\<close>.
  \<^verbatim>\<open>
  def get_unpressed_rect(self):
      rect = self.get_fullsize_rect()
      return self._apply_key_size(rect)

  def get_rect(self):
      rect = self.get_fullsize_rect()
      # fake physical key action
      if self.pressed:
          key_style = config.theme_settings.key_style
          if key_style == "gradient":
              k = 0.2
              rect.x += k
              rect.y += 2 * k
              rect.w - 2 * k
              rect.h - k
          elif key_style == "dish":
              k = 0.45
              rect.x += k
              rect.y += 2 * k
              rect.w - 2 * k
              rect.h - k
      return self._apply_key_size(rect)
  \<close>
  The statements \<^verbatim>\<open>rect.w - 2 * k\<close> and \<^verbatim>\<open>rect.h - k\<close> compute a value and drop it.
  The assignments to \<^verbatim>\<open>rect.x\<close> and \<^verbatim>\<open>rect.y\<close> change the object that
  \<^verbatim>\<open>get_fullsize_rect\<close> returned; the model follows the rectangle that reaches
  \<^verbatim>\<open>_apply_key_size\<close> and is returned.
\<close>

definition get_unpressed_rect :: "theme_settings \<Rightarrow> Rect \<Rightarrow> Rect" where
  "get_unpressed_rect config fullsize = (let rect = fullsize in apply_key_size config rect)"

definition get_rect :: "theme_settings \<Rightarrow> key \<Rightarrow> Rect \<Rightarrow> Rect" where
  "get_rect config self fullsize =
     (let rect = fullsize;
          rect =
            (if pressed self then
               (if key_style config = ''gradient'' then
                  (let k = 0.2 in
                   Rect (rect_x rect + k) (rect_y rect + 2 * k) (rect_w rect) (rect_h rect))
                else if key_style config = ''dish'' then
                  (let k = 0.45 in
                   Rect (rect_x rect + k) (rect_y rect + 2 * k) (rect_w rect) (rect_h rect))
                else rect)
             else rect)
      in apply_key_size config rect)"

section \<open>Label resolution\<close>

lemma resolve_label_eq_spec:
  "resolve_label M d mod_mask = Inr (resolve_label_spec M d mod_mask)"
  unfolding resolve_label_def resolve_label_spec_def label_priority_def assign_item_def Let_def
  by (auto split: option.splits)

lemma resolve_label_exact: "d mod_mask = Some v \<Longrightarrow> resolve_label M d mod_mask = Inr v"
  by (simp add: resolve_label_def)

lemma configure_label_Some:
  "configure_label M (self\<lparr>labels := Some d\<rparr>) mod_mask =
     Inr (self\<lparr>labels := Some d, label := resolve_label_spec M d mod_mask\<rparr>)"
  by (simp add: configure_label_def resolve_label_eq_spec)

text \<open>
  C1. The label that \<open>configure_label\<close> stores is found by first match in the order
  of \<open>label_priority\<close>: the entry at the mask itself, the entry at the mask restricted
  to \<open>LABEL_MODIFIERS\<close>, then the legacy slots (with Shift: 129 if AltGr is set too,
  then 1, then 2; without Shift: 128 if AltGr is set, else with CapsLock 2, then 1),
  then slot 0, and the empty string if nothing is present. An entry at the mask itself
  wins over everything else. With the slot numbers as modifier bits (Shift 1, CapsLock 2,
  AltGr 128) the examples of the specification hold.
\<close>

theorem configure_label_priority:
  "configure_label M ((self::key)\<lparr>labels := Some d\<rparr>) mod_mask =
     Inr (self\<lparr>labels := Some d, label := resolve_label_spec M d mod_mask\<rparr>) \<and>
   resolve_label M d mod_mask = Inr (resolve_label_spec M d mod_mask) \<and>
   (\<forall>v. d mod_mask = Some v \<longrightarrow> resolve_label M d mod_mask = Inr v) \<and>
   (SHIFT M = 1 \<and> CAPS M = 2 \<and> ALTGR M = 128 \<longrightarrow>
      resolve_label M [0 \<mapsto> ''a'', 1 \<mapsto> ''b'', 2 \<mapsto> ''c'', 128 \<mapsto> ''d'', 129 \<mapsto> ''e'']
        (SHIFT M) = Inr ''b'' \<and>
      resolve_label M [0 \<mapsto> ''a'', 1 \<mapsto> ''b'', 2 \<mapsto> ''c'', 128 \<mapsto> ''d'', 129 \<mapsto> ''e'']
        (or (SHIFT M) (ALTGR M)) = Inr ''e'' \<and>
      resolve_label M [0 \<mapsto> ''a'', 1 \<mapsto> ''b'', 2 \<mapsto> ''c'', 128 \<mapsto> ''d'', 129 \<mapsto> ''e'']
        (ALTGR M) = Inr ''d'' \<and>
      resolve_label M [0 \<mapsto> ''a'', 2 \<mapsto> ''c''] (CAPS M) = Inr ''c'') \<and>
   resolve_label M Map.empty 0 = Inr []"
proof -
  have examples:
    "resolve_label M [0 \<mapsto> ''a'', 1 \<mapsto> ''b'', 2 \<mapsto> ''c'', 128 \<mapsto> ''d'', 129 \<mapsto> ''e'']
        (SHIFT M) = Inr ''b''"
    "resolve_label M [0 \<mapsto> ''a'', 1 \<mapsto> ''b'', 2 \<mapsto> ''c'', 128 \<mapsto> ''d'', 129 \<mapsto> ''e'']
        (or (SHIFT M) (ALTGR M)) = Inr ''e''"
    "resolve_label M [0 \<mapsto> ''a'', 1 \<mapsto> ''b'', 2 \<mapsto> ''c'', 128 \<mapsto> ''d'', 129 \<mapsto> ''e'']
        (ALTGR M) = Inr ''d''"
    "resolve_label M [0 \<mapsto> ''a'', 2 \<mapsto> ''c''] (CAPS M) = Inr ''c''"
    if "SHIFT M = 1" "CAPS M = 2" "ALTGR M = 128"
    using that by (simp_all add: resolve_label_exact)
  have empty: "resolve_label M Map.empty 0 = Inr []"
    by (simp add: resolve_label_def)
  show ?thesis
    using examples empty resolve_label_exact [of d mod_mask]
    by (simp add: configure_label_Some resolve_label_eq_spec)
qed

theorem configure_label_priority_witness:
  "resolve_label \<lparr>SHIFT = 1, CAPS = 2, ALTGR = 128, LABEL_MODIFIERS = 147\<rparr>
     [0 \<mapsto> ''a'', 1 \<mapsto> ''b'', 2 \<mapsto> ''c'', 128 \<mapsto> ''d'', 129 \<mapsto> ''e''] 1 = Inr ''b'' \<and>
   resolve_label \<lparr>SHIFT = 1, CAPS = 2, ALTGR = 128, LABEL_MODIFIERS = 147\<rparr>
     [0 \<mapsto> ''a'', 1 \<mapsto> ''b'', 2 \<mapsto> ''c'', 128 \<mapsto> ''d'', 129 \<mapsto> ''e''] 129 = Inr ''e'' \<and>
   resolve_label \<lparr>SHIFT = 1, CAPS = 2, ALTGR = 128, LABEL_MODIFIERS = 147\<rparr>
     [0 \<mapsto> ''a'', 1 \<mapsto> ''b'', 2 \<mapsto> ''c'', 128 \<mapsto> ''d'', 129 \<mapsto> ''e''] 128 = Inr ''d'' \<and>
   resolve_label \<lparr>SHIFT = 1, CAPS = 2, ALTGR = 128, LABEL_MODIFIERS = 147\<rparr>
     [0 \<mapsto> ''a'', 2 \<mapsto> ''c''] 2 = Inr ''c''"
proof -
  note at_5 = configure_label_priority
    [where M = "\<lparr>SHIFT = 1, CAPS = 2, ALTGR = 128, LABEL_MODIFIERS = 147\<rparr>"
       and self = "RectKeyCommon ''AB01''" and d = "[5 \<mapsto> ''x'', 1 \<mapsto> ''b'']" and mod_mask = 5]
  have constants:
    "SHIFT \<lparr>SHIFT = 1, CAPS = 2, ALTGR = 128, LABEL_MODIFIERS = 147\<rparr> = 1 \<and>
     CAPS \<lparr>SHIFT = 1, CAPS = 2, ALTGR = 128, LABEL_MODIFIERS = 147\<rparr> = 2 \<and>
     ALTGR \<lparr>SHIFT = 1, CAPS = 2, ALTGR = 128, LABEL_MODIFIERS = 147\<rparr> = 128"
    by simp
  from at_5 constants show ?thesis by simp
qed



section \<open>Rectangles\<close>

lemma apply_key_size_deflate:
  "apply_key_size config rect =
     deflate rect (fst (key_size_borders config rect)) (snd (key_size_borders config rect))"
  by (simp add: apply_key_size_def split: prod.splits)

text \<open>
  C3. When the key is pressed, \<open>get_rect\<close> moves the origin of the full-size
  rectangle before the key-size stage, by \<open>(0.2, 0.4)\<close> for the style \<open>gradient\<close> and by
  \<open>(0.45, 0.9)\<close> for the style \<open>dish\<close>, and leaves its width and height as they are
  (the differences the source computes are dropped). For any other style, or when the
  key is not pressed, it returns what \<open>get_unpressed_rect\<close> returns.
\<close>

theorem get_rect_pressed_offset:
  "(pressed self \<and> key_style config = ''gradient'' \<longrightarrow>
      get_rect config self fullsize =
        apply_key_size config
          (Rect (rect_x fullsize + 0.2) (rect_y fullsize + 0.4) (rect_w fullsize) (rect_h fullsize))) \<and>
   (pressed self \<and> key_style config = ''dish'' \<longrightarrow>
      get_rect config self fullsize =
        apply_key_size config
          (Rect (rect_x fullsize + 0.45) (rect_y fullsize + 0.9) (rect_w fullsize) (rect_h fullsize))) \<and>
   (\<not> pressed self \<or> key_style config \<notin> {''gradient'', ''dish''} \<longrightarrow>
      get_rect config self fullsize = get_unpressed_rect config fullsize)"
  by (cases fullsize) (simp add: get_rect_def get_unpressed_rect_def Let_def)

theorem get_rect_pressed_offset_witness:
  "get_rect \<lparr>key_style = ''gradient'', key_size = 100\<rparr> (RectKeyCommon ''AB01''\<lparr>pressed := True\<rparr>)
     (Rect 10 20 30 40) = Rect (10.2) (20.4) 30 40 \<and>
   get_rect \<lparr>key_style = ''dish'', key_size = 100\<rparr> (RectKeyCommon ''AB01''\<lparr>pressed := True\<rparr>)
     (Rect 10 20 30 40) = Rect (10.45) (20.9) 30 40 \<and>
   get_rect \<lparr>key_style = ''flat'', key_size = 100\<rparr> (RectKeyCommon ''AB01''\<lparr>pressed := True\<rparr>)
     (Rect 10 20 30 40) = get_unpressed_rect \<lparr>key_style = ''flat'', key_size = 100\<rparr> (Rect 10 20 30 40) \<and>
   get_rect \<lparr>key_style = ''dish'', key_size = 100\<rparr> (RectKeyCommon ''AB01'')
     (Rect 10 20 30 40) = Rect 10 20 30 40"
  using get_rect_pressed_offset [where config = "\<lparr>key_style = ''gradient'', key_size = 100\<rparr>"
          and self = "RectKeyCommon ''AB01''\<lparr>pressed := True\<rparr>" and fullsize = "Rect 10 20 30 40"]
        get_rect_pressed_offset [where config = "\<lparr>key_style = ''dish'', key_size = 100\<rparr>"
          and self = "RectKeyCommon ''AB01''\<lparr>pressed := True\<rparr>" and fullsize = "Rect 10 20 30 40"]
        get_rect_pressed_offset [where config = "\<lparr>key_style = ''flat'', key_size = 100\<rparr>"
          and self = "RectKeyCommon ''AB01''\<lparr>pressed := True\<rparr>" and fullsize = "Rect 10 20 30 40"]
        get_rect_pressed_offset [where config = "\<lparr>key_style = ''dish'', key_size = 100\<rparr>"
          and self = "RectKeyCommon ''AB01''" and fullsize = "Rect 10 20 30 40"]
  by (simp add: RectKeyCommon_def get_unpressed_rect_def apply_key_size_def key_size_borders_def deflate_def)

text \<open>
  C4. For a rectangle of non-negative width and height and a key size in \<open>(0, 100]\<close>
  the key-size stage increases neither the width nor the height, and at key size
  \<open>100\<close> it returns the rectangle it was given. (The width and height of the result are
  those of \<open>deflate\<close>, which is modelled from the specification.)
\<close>

theorem apply_key_size_shrinks:
  "0 \<le> rect_w rect \<and> 0 \<le> rect_h rect \<and> 0 < key_size config \<and> key_size config \<le> 100 \<longrightarrow>
     rect_w (apply_key_size config rect) \<le> rect_w rect \<and>
     rect_h (apply_key_size config rect) \<le> rect_h rect \<and>
     (key_size config = 100 \<longrightarrow> apply_key_size config rect = rect)"
proof (intro impI)
  assume a: "0 \<le> rect_w rect \<and> 0 \<le> rect_h rect \<and> 0 < key_size config \<and> key_size config \<le> 100"
  define s where "s = 1 - key_size config / 100"
  have s: "0 \<le> s" using a by (simp add: s_def)
  have bw: "0 \<le> rect_w rect * s" and bh: "0 \<le> rect_h rect * s"
    using a s by simp_all
  have w: "rect_w (apply_key_size config rect) \<le> rect_w rect"
    using a bw bh
    by (auto simp: apply_key_size_def key_size_borders_def deflate_def Let_def s_def [symmetric])
  have h: "rect_h (apply_key_size config rect) \<le> rect_h rect"
    using a bw bh
    by (auto simp: apply_key_size_def key_size_borders_def deflate_def Let_def s_def [symmetric])
  have full: "apply_key_size config rect = rect" if "key_size config = 100"
    using a that by (cases rect) (simp add: apply_key_size_def key_size_borders_def deflate_def)
  from w h full
  show "rect_w (apply_key_size config rect) \<le> rect_w rect \<and>
     rect_h (apply_key_size config rect) \<le> rect_h rect \<and>
     (key_size config = 100 \<longrightarrow> apply_key_size config rect = rect)" by blast
qed

theorem apply_key_size_shrinks_witness:
  "rect_w (apply_key_size \<lparr>key_style = ''flat'', key_size = 50\<rparr> (Rect 0 0 40 20)) \<le> 40 \<and>
   rect_h (apply_key_size \<lparr>key_style = ''flat'', key_size = 50\<rparr> (Rect 0 0 40 20)) \<le> 20 \<and>
   apply_key_size \<lparr>key_style = ''flat'', key_size = 100\<rparr> (Rect 3 4 40 20) = Rect 3 4 40 20"
  using apply_key_size_shrinks [where config = "\<lparr>key_style = ''flat'', key_size = 50\<rparr>" and rect = "Rect 0 0 40 20"]
        apply_key_size_shrinks [where config = "\<lparr>key_style = ''flat'', key_size = 100\<rparr>" and rect = "Rect 3 4 40 20"]
  by simp

text \<open>
  C5. In the key-size stage, a rectangle higher than wide is deflated on both axes by
  the amount computed from its width, \<open>w (1 - key_size / 100) / 2\<close>; a rectangle wider
  than high by the amount computed from its height; for a square both amounts keep their
  own formula, and are equal.
\<close>

theorem apply_key_size_aspect_coupling:
  "(rect_h rect > rect_w rect \<longrightarrow>
      key_size_borders config rect =
        (rect_w rect * (1 - key_size config / 100) / 2, rect_w rect * (1 - key_size config / 100) / 2)) \<and>
   (rect_w rect > rect_h rect \<longrightarrow>
      key_size_borders config rect =
        (rect_h rect * (1 - key_size config / 100) / 2, rect_h rect * (1 - key_size config / 100) / 2)) \<and>
   (rect_w rect = rect_h rect \<longrightarrow>
      key_size_borders config rect =
        (rect_w rect * (1 - key_size config / 100) / 2, rect_h rect * (1 - key_size config / 100) / 2) \<and>
      fst (key_size_borders config rect) = snd (key_size_borders config rect)) \<and>
   apply_key_size config rect =
     deflate rect (fst (key_size_borders config rect)) (snd (key_size_borders config rect))"
  by (simp add: key_size_borders_def apply_key_size_deflate Let_def)

theorem apply_key_size_aspect_coupling_witness:
  "key_size_borders \<lparr>key_style = ''flat'', key_size = 50\<rparr> (Rect 0 0 20 40) = (5, 5) \<and>
   key_size_borders \<lparr>key_style = ''flat'', key_size = 50\<rparr> (Rect 0 0 40 20) = (5, 5) \<and>
   key_size_borders \<lparr>key_style = ''flat'', key_size = 50\<rparr> (Rect 0 0 40 40) = (10, 10) \<and>
   apply_key_size \<lparr>key_style = ''flat'', key_size = 50\<rparr> (Rect 0 0 20 40) =
     deflate (Rect 0 0 20 40) 5 5"
  using apply_key_size_aspect_coupling [where config = "\<lparr>key_style = ''flat'', key_size = 50\<rparr>" and rect = "Rect 0 0 20 40"]
        apply_key_size_aspect_coupling [where config = "\<lparr>key_style = ''flat'', key_size = 50\<rparr>" and rect = "Rect 0 0 40 20"]
        apply_key_size_aspect_coupling [where config = "\<lparr>key_style = ''flat'', key_size = 50\<rparr>" and rect = "Rect 0 0 40 40"]
  by simp

section \<open>The colour cache\<close>

lemma truthy_simps:
  "\<not> truthy None" "truthy (Some xs) \<longleftrightarrow> xs \<noteq> []"
  by (simp_all add: truthy_def)

lemma get_color_hit:
  assumes "colors self (color_key_of self element) = Some v" "truthy v"
  shows "get_color color_scheme self element = (v, self, [])"
  using assms by (simp add: get_color_def Let_def truthy_simps)

lemma get_color_miss_no_scheme:
  assumes "\<not> truthy (case colors self (color_key_of self element) of None \<Rightarrow> None | Some v \<Rightarrow> v)"
  shows "get_color None self element =
           (Some (if element = ''label'' then [0, 0, 0, 1] else [1, 1, 1, 1]),
            self\<lparr>colors := (colors self)(color_key_of self element \<mapsto>
                    Some (if element = ''label'' then [0, 0, 0, 1] else [1, 1, 1, 1]))\<rparr>,
            [])"
  using assms by (simp add: get_color_def Let_def)

lemma get_color_miss_scheme:
  assumes "\<not> truthy (case colors self (color_key_of self element) of None \<Rightarrow> None | Some v \<Rightarrow> v)"
  shows "get_color (Some get_key_rgba) self element =
           (get_key_rgba self element,
            self\<lparr>colors := (colors self)(color_key_of self element \<mapsto> get_key_rgba self element)\<rparr>,
            [color_key_of self element])"
  using assms by (simp add: get_color_def Let_def)

text \<open>
  C6 (as amended). On a cache miss (nothing stored for the key, or a stored value that
  \<^verbatim>\<open>not rgba\<close> takes for nothing): a key without a colour scheme gets the built-in
  default, opaque black for the element \<open>label\<close> and opaque white for any other, stored
  and returned without any lookup; a key with a colour scheme gets whatever
  \<^verbatim>\<open>get_key_rgba\<close> returns, stored and returned as it is. The result is a colour
  whenever the colour scheme, if there is one, returns colours.
\<close>

theorem get_color_miss:
  "\<not> truthy (case colors self (color_key_of self element) of None \<Rightarrow> None | Some v \<Rightarrow> v) \<longrightarrow>
     get_color None self element =
       (Some (if element = ''label'' then [0, 0, 0, 1] else [1, 1, 1, 1]),
        self\<lparr>colors := (colors self)(color_key_of self element \<mapsto>
                Some (if element = ''label'' then [0, 0, 0, 1] else [1, 1, 1, 1]))\<rparr>,
        []) \<and>
     get_color (Some get_key_rgba) self element =
       (get_key_rgba self element,
        self\<lparr>colors := (colors self)(color_key_of self element \<mapsto> get_key_rgba self element)\<rparr>,
        [color_key_of self element]) \<and>
     (\<forall>color_scheme. returns_colors color_scheme \<longrightarrow>
        truthy (fst (get_color color_scheme self element)))"
proof (intro impI conjI allI)
  assume miss: "\<not> truthy (case colors self (color_key_of self element) of None \<Rightarrow> None | Some v \<Rightarrow> v)"
  show "get_color None self element =
       (Some (if element = ''label'' then [0, 0, 0, 1] else [1, 1, 1, 1]),
        self\<lparr>colors := (colors self)(color_key_of self element \<mapsto>
                Some (if element = ''label'' then [0, 0, 0, 1] else [1, 1, 1, 1]))\<rparr>,
        [])"
    by (rule get_color_miss_no_scheme [OF miss])
  show "get_color (Some get_key_rgba) self element =
       (get_key_rgba self element,
        self\<lparr>colors := (colors self)(color_key_of self element \<mapsto> get_key_rgba self element)\<rparr>,
        [color_key_of self element])"
    by (rule get_color_miss_scheme [OF miss])
  fix color_scheme
  assume ok: "returns_colors color_scheme"
  show "truthy (fst (get_color color_scheme self element))"
  proof (cases color_scheme)
    case None
    then show ?thesis by (simp add: get_color_miss_no_scheme [OF miss] truthy_simps)
  next
    case (Some f)
    with ok have "truthy (f self element)" by (simp add: returns_colors_def)
    with Some show ?thesis by (simp add: get_color_miss_scheme [OF miss])
  qed
qed

theorem get_color_miss_witness:
  "get_color None (RectKeyCommon ''AB01'') ''label'' =
     (Some [0, 0, 0, 1],
      RectKeyCommon ''AB01''\<lparr>colors := [(''label'', False, False, False, False, True, False) \<mapsto> Some [0, 0, 0, 1]]\<rparr>,
      []) \<and>
   get_color None (RectKeyCommon ''AB01'') ''fill'' =
     (Some [1, 1, 1, 1],
      RectKeyCommon ''AB01''\<lparr>colors := [(''fill'', False, False, False, False, True, False) \<mapsto> Some [1, 1, 1, 1]]\<rparr>,
      []) \<and>
   get_color (Some (\<lambda>k e. Some [0.5, 0.5, 0.5, 1])) (RectKeyCommon ''AB01'') ''fill'' =
     (Some [0.5, 0.5, 0.5, 1],
      RectKeyCommon ''AB01''\<lparr>colors := [(''fill'', False, False, False, False, True, False) \<mapsto> Some [0.5, 0.5, 0.5, 1]]\<rparr>,
      [(''fill'', False, False, False, False, True, False)]) \<and>
   truthy (fst (get_color (Some (\<lambda>k e. Some [0.5, 0.5, 0.5, 1])) (RectKeyCommon ''AB01'') ''fill''))"
proof -
  have ok: "returns_colors (Some (\<lambda>k e. Some [0.5, 0.5, 0.5, 1]))"
    by (simp add: returns_colors_def truthy_simps)
  show ?thesis
    using get_color_miss [where self = "RectKeyCommon ''AB01''" and element = "''label''"
            and get_key_rgba = "\<lambda>k e. Some [0.5, 0.5, 0.5, 1]"]
          get_color_miss [where self = "RectKeyCommon ''AB01''" and element = "''fill''"
            and get_key_rgba = "\<lambda>k e. Some [0.5, 0.5, 0.5, 1]"] ok
    by (simp add: RectKeyCommon_def color_key_of_def truthy_simps)
qed

text \<open>
  The claim as stated, a default whenever the theme returns nothing, fails: a colour
  scheme whose lookup returns \<^verbatim>\<open>None\<close> for the element \<open>fill\<close> makes \<open>get_color\<close>
  return \<^verbatim>\<open>None\<close>, not white.
\<close>

theorem get_color_default_counterexample:
  "fst (get_color (Some (\<lambda>k e. None)) (RectKeyCommon ''AB01'') ''fill'') = None \<and>
   fst (get_color (Some (\<lambda>k e. None)) (RectKeyCommon ''AB01'') ''fill'') \<noteq> Some [1, 1, 1, 1]"
  by (simp add: get_color_def RectKeyCommon_def color_key_of_def Let_def truthy_simps)


lemma color_key_of_set_flags:
  "color_key_of (set_flags fl self) element = query_key (fl, color_scheme, element)"
  by (cases fl) (simp add: color_key_of_def)

lemma colors_set_flags: "colors (set_flags fl self) = colors self"
  by (cases fl) simp

lemma get_color_step:
  assumes run: "get_color color_scheme self element = (rgba, self', calls)"
    and scheme: "returns_colors color_scheme"
  shows "colors self' (color_key_of self element) = Some rgba \<and> truthy rgba \<and>
         (\<forall>k v. colors self k = Some v \<and> truthy v \<longrightarrow> colors self' k = Some v) \<and>
         (calls = [] \<or> (calls = [color_key_of self element] \<and>
            \<not> truthy (case colors self (color_key_of self element) of
                         None \<Rightarrow> None | Some stored \<Rightarrow> stored)))"
proof (cases "truthy (case colors self (color_key_of self element) of
                         None \<Rightarrow> None | Some stored \<Rightarrow> stored)")
  case True
  then obtain v where v: "colors self (color_key_of self element) = Some v" "truthy v"
    by (cases "colors self (color_key_of self element)") (auto simp: truthy_simps)
  then have "get_color color_scheme self element = (v, self, [])"
    by (rule get_color_hit)
  with run v show ?thesis by auto
next
  case False
  show ?thesis
  proof (cases color_scheme)
    case None
    with run False show ?thesis
      by (auto simp: get_color_def Let_def truthy_simps split: if_splits)
  next
    case (Some f)
    with scheme have "truthy (f self element)" by (simp add: returns_colors_def)
    with run False Some show ?thesis
      by (auto simp: get_color_def Let_def split: if_splits)
  qed
qed

lemma get_colors_run:
  assumes "get_colors self queries = (rgbas, self', calls)"
    and "\<forall>q \<in> set queries. returns_colors (fst (snd q))"
  shows "length rgbas = length queries \<and>
         (\<forall>k v. colors self k = Some v \<and> truthy v \<longrightarrow> colors self' k = Some v) \<and>
         (\<forall>i < length queries.
            colors self' (query_key (queries ! i)) = Some (rgbas ! i) \<and> truthy (rgbas ! i)) \<and>
         distinct calls \<and>
         (\<forall>k \<in> set calls. \<not> truthy (case colors self k of None \<Rightarrow> None | Some stored \<Rightarrow> stored))"
  using assms
proof (induction queries arbitrary: self rgbas self' calls)
  case Nil
  then show ?case by simp
next
  case (Cons q queries)
  obtain fl color_scheme element where q: "q = (fl, color_scheme, element)"
    by (cases q) auto
  obtain rgba self1 calls1 where
    first: "get_color color_scheme (set_flags fl self) element = (rgba, self1, calls1)"
    by (cases "get_color color_scheme (set_flags fl self) element") auto
  obtain rest self2 calls2 where
    others: "get_colors self1 queries = (rest, self2, calls2)"
    by (cases "get_colors self1 queries") auto
  from Cons.prems(1) q first others
  have res: "rgbas = rgba # rest" "self' = self2" "calls = calls1 @ calls2"
    by simp_all
  let ?ck = "query_key q"
  have ck: "color_key_of (set_flags fl self) element = ?ck"
    by (simp add: q color_key_of_set_flags)
  have scheme: "returns_colors color_scheme"
    using Cons.prems(2) q by simp
  have step: "colors self1 ?ck = Some rgba" "truthy rgba"
    "\<forall>k v. colors self k = Some v \<and> truthy v \<longrightarrow> colors self1 k = Some v"
    "calls1 = [] \<or> (calls1 = [?ck] \<and>
       \<not> truthy (case colors self ?ck of None \<Rightarrow> None | Some stored \<Rightarrow> stored))"
    using get_color_step [OF first scheme] unfolding ck colors_set_flags by blast+
  have schemes: "\<forall>q \<in> set queries. returns_colors (fst (snd q))"
    using Cons.prems(2) by simp
  note ih = Cons.IH [OF others schemes]
  have keep2: "\<forall>k v. colors self1 k = Some v \<and> truthy v \<longrightarrow> colors self2 k = Some v"
    using ih by blast
  have len: "length rgbas = length (q # queries)"
    using ih res by simp
  have keep: "\<forall>k v. colors self k = Some v \<and> truthy v \<longrightarrow> colors self' k = Some v"
    using step(3) keep2 res by blast
  have held: "\<forall>i < length (q # queries).
      colors self' (query_key ((q # queries) ! i)) = Some (rgbas ! i) \<and> truthy (rgbas ! i)"
  proof (intro allI impI)
    fix i assume i: "i < length (q # queries)"
    show "colors self' (query_key ((q # queries) ! i)) = Some (rgbas ! i) \<and> truthy (rgbas ! i)"
    proof (cases i)
      case 0
      from step(1,2) keep2 have "colors self2 ?ck = Some rgba" by blast
      with 0 res step(2) show ?thesis by simp
    next
      case (Suc j)
      with i ih res show ?thesis by simp
    qed
  qed
  have calls2: "distinct calls2"
    "\<forall>k \<in> set calls2. \<not> truthy (case colors self1 k of None \<Rightarrow> None | Some stored \<Rightarrow> stored)"
    using ih by blast+
  have not_again: "?ck \<notin> set calls2"
    using calls2(2) step(1,2) by auto
  have dist: "distinct calls"
    using step(4) calls2(1) not_again res by auto
  have stale: "\<not> truthy (case colors self k of None \<Rightarrow> None | Some stored \<Rightarrow> stored)"
    if "k \<in> set calls2" for k
  proof
    assume "truthy (case colors self k of None \<Rightarrow> None | Some stored \<Rightarrow> stored)"
    then obtain v where "colors self k = Some v" "truthy v"
      by (cases "colors self k") (auto simp: truthy_simps)
    with step(3) have "colors self1 k = Some v" "truthy v" by blast+
    with calls2(2) that show False by auto
  qed
  have missed: "\<forall>k \<in> set calls.
      \<not> truthy (case colors self k of None \<Rightarrow> None | Some stored \<Rightarrow> stored)"
    using step(4) stale res by auto
  from len keep held dist missed show ?case by blast
qed

text \<open>
  C7 (as amended). In a sequence of queries on one key, with nothing else touching the
  cache, from any cache and with colour schemes that return colours: \<^verbatim>\<open>get_key_rgba\<close>
  is called at most once for each cache key, and only for a key for which the cache held
  no colour at the start; and any two queries with the same element and the same six
  flags return the same value.
\<close>

theorem get_colors_cache_determinism:
  assumes "get_colors self queries = (rgbas, self', calls)"
    and "\<forall>q \<in> set queries. returns_colors (fst (snd q))"
  shows "distinct calls \<and>
         (\<forall>k \<in> set calls. \<not> truthy (case colors self k of None \<Rightarrow> None | Some stored \<Rightarrow> stored)) \<and>
         (i < length queries \<and> j < length queries \<and>
          query_key (queries ! i) = query_key (queries ! j) \<longrightarrow> rgbas ! i = rgbas ! j)"
proof -
  note run = get_colors_run [OF assms]
  have same: "rgbas ! i = rgbas ! j"
    if "i < length queries" "j < length queries"
      "query_key (queries ! i) = query_key (queries ! j)"
  proof -
    from run that(1) have "colors self' (query_key (queries ! i)) = Some (rgbas ! i)" by blast
    moreover from run that(2) have "colors self' (query_key (queries ! j)) = Some (rgbas ! j)" by blast
    ultimately show ?thesis using that(3) by simp
  qed
  from run same show ?thesis by blast
qed

theorem get_colors_cache_determinism_witness:
  "get_colors
     (RectKeyCommon ''AB01''\<lparr>colors := [(''fill'', False, True, False, False, True, False) \<mapsto> None]\<rparr>)
     [((False, True, False, False, True, False), Some (\<lambda>k e. Some [0.5, 0.5, 0.5, 1]), ''fill''),
      ((False, False, False, False, True, False), Some (\<lambda>k e. Some [0.5, 0.5, 0.5, 1]), ''label''),
      ((False, True, False, False, True, False), None, ''fill'')] =
   ([Some [0.5, 0.5, 0.5, 1], Some [0.5, 0.5, 0.5, 1], Some [0.5, 0.5, 0.5, 1]],
    RectKeyCommon ''AB01''
      \<lparr>prelight := False, pressed := True, active := False, locked := False,
       sensitive := True, scanned := False,
       colors := [(''fill'', False, True, False, False, True, False) \<mapsto> Some [0.5, 0.5, 0.5, 1],
                  (''label'', False, False, False, False, True, False) \<mapsto> Some [0.5, 0.5, 0.5, 1]]\<rparr>,
    [(''fill'', False, True, False, False, True, False),
     (''label'', False, False, False, False, True, False)]) \<and>
   distinct [(''fill'', False, True, False, False, True, False),
             (''label'', False, False, False, False, True, False)] \<and>
   [Some [0.5, 0.5, 0.5, 1], Some [0.5, 0.5, 0.5, 1], Some [0.5::real, 0.5, 0.5, 1]] ! 0 =
   [Some [0.5, 0.5, 0.5, 1], Some [0.5, 0.5, 0.5, 1], Some [0.5, 0.5, 0.5, 1]] ! 2"
proof -
  let ?queries =
    "[((False, True, False, False, True, False), Some (\<lambda>k e. Some [0.5, 0.5, 0.5, 1]), ''fill''),
      ((False, False, False, False, True, False), Some (\<lambda>k e. Some [0.5, 0.5, 0.5, 1]), ''label''),
      ((False, True, False, False, True, False), None, ''fill'')]
     :: (flags \<times> color_scheme option \<times> string) list"
  let ?calls = "[(''fill'', False, True, False, False, True, False),
     (''label'', False, False, False, False, True, False)]"
  have run: "get_colors
     (RectKeyCommon ''AB01''\<lparr>colors := [(''fill'', False, True, False, False, True, False) \<mapsto> None]\<rparr>)
     ?queries =
   ([Some [0.5, 0.5, 0.5, 1], Some [0.5, 0.5, 0.5, 1], Some [0.5, 0.5, 0.5, 1]],
    RectKeyCommon ''AB01''
      \<lparr>prelight := False, pressed := True, active := False, locked := False,
       sensitive := True, scanned := False,
       colors := [(''fill'', False, True, False, False, True, False) \<mapsto> Some [0.5, 0.5, 0.5, 1],
                  (''label'', False, False, False, False, True, False) \<mapsto> Some [0.5, 0.5, 0.5, 1]]\<rparr>,
    ?calls)"
    by (simp add: get_color_def RectKeyCommon_def color_key_of_def Let_def truthy_def)
  have schemes: "\<forall>q \<in> set ?queries. returns_colors (fst (snd q))"
    by (simp add: returns_colors_def truthy_def)
  from get_colors_cache_determinism [OF run schemes, where i = 0 and j = 2] run
  show ?thesis by simp
qed

text \<open>
  The claim as stated, at most one lookup per cache key, fails when the lookup returns
  \<^verbatim>\<open>None\<close>: the stored \<^verbatim>\<open>None\<close> counts as a miss, and two queries with the same key
  make two lookups.
\<close>

theorem get_colors_lookup_counterexample:
  "snd (snd (get_colors (RectKeyCommon ''AB01'')
     [((False, False, False, False, True, False), Some (\<lambda>k e. None), ''fill''),
      ((False, False, False, False, True, False), Some (\<lambda>k e. None), ''fill'')])) =
   [(''fill'', False, False, False, False, True, False),
    (''fill'', False, False, False, False, True, False)]"
  by (simp add: get_color_def RectKeyCommon_def color_key_of_def Let_def truthy_def)

section \<open>Key ids\<close>

lemma split_on_first:
  "\<exists>pieces. split_on sep s = takeWhile (\<lambda>c. c \<noteq> sep) s # pieces"
  by (induction s) auto

lemma split_id_eq:
  "split_id value = Inr (value, takeWhile (\<lambda>c. c \<noteq> CHR ''.'') value)"
proof -
  obtain pieces where "split_on (CHR ''.'') value = takeWhile (\<lambda>c. c \<noteq> CHR ''.'') value # pieces"
    using split_on_first by blast
  then show ?thesis by (simp add: split_id_def)
qed

lemma takeWhile_prefix_cases:
  "s = takeWhile (\<lambda>c. c \<noteq> sep) s \<or> (\<exists>rest. s = takeWhile (\<lambda>c. c \<noteq> sep) s @ sep # rest)"
proof (cases "dropWhile (\<lambda>c. c \<noteq> sep) s")
  case Nil
  then have "takeWhile (\<lambda>c. c \<noteq> sep) s = s"
    by (metis append_Nil2 takeWhile_dropWhile_id)
  then show ?thesis by metis
next
  case (Cons c rest)
  then have "c = sep" using hd_dropWhile [of "\<lambda>c. c \<noteq> sep" s] by auto
  with Cons have "s = takeWhile (\<lambda>c. c \<noteq> sep) s @ sep # rest"
    using takeWhile_dropWhile_id [of "\<lambda>c. c \<noteq> sep" s] by simp
  then show ?thesis by blast
qed

text \<open>
  C8 (as amended). \<open>set_id\<close> stores the string itself as theme id and, as id, its part
  before the first dot (all of it when it has no dot): the id never contains a dot, the
  theme id is the id alone or the id followed by a dot and a rest, and the theme id
  contains a dot exactly when it differs from the id.
\<close>

theorem set_id_identity:
  "set_id self value =
     Inr (self\<lparr>theme_id := Some value, key_id := takeWhile (\<lambda>c. c \<noteq> CHR ''.'') value\<rparr>) \<and>
   CHR ''.'' \<notin> set (takeWhile (\<lambda>c. c \<noteq> CHR ''.'') value) \<and>
   (value = takeWhile (\<lambda>c. c \<noteq> CHR ''.'') value \<or>
    (\<exists>rest. value = takeWhile (\<lambda>c. c \<noteq> CHR ''.'') value @ CHR ''.'' # rest)) \<and>
   (CHR ''.'' \<in> set value \<longleftrightarrow> value \<noteq> takeWhile (\<lambda>c. c \<noteq> CHR ''.'') value)"
proof -
  let ?ident = "takeWhile (\<lambda>c. c \<noteq> CHR ''.'') value"
  have stored: "set_id self value = Inr (self\<lparr>theme_id := Some value, key_id := ?ident\<rparr>)"
    by (simp add: set_id_def split_id_eq)
  have nodot: "CHR ''.'' \<notin> set ?ident"
    by (auto dest: set_takeWhileD)
  have shape: "value = ?ident \<or> (\<exists>rest. value = ?ident @ CHR ''.'' # rest)"
    by (rule takeWhile_prefix_cases)
  have "(?ident = value) = (\<forall>c \<in> set value. c \<noteq> CHR ''.'')"
    by (rule takeWhile_eq_all_conv)
  then have dot: "CHR ''.'' \<in> set value \<longleftrightarrow> value \<noteq> ?ident"
    by metis
  from stored nodot shape dot show ?thesis by blast
qed

text \<open>
  The claim as stated, a stored theme id always contains a dot, fails for the id
  \<open>DELE\<close>, which is stored as theme id unchanged.
\<close>

theorem set_id_theme_id_counterexample:
  "set_id (RectKeyCommon []) ''DELE'' =
     Inr (RectKeyCommon []\<lparr>theme_id := Some ''DELE'', key_id := ''DELE''\<rparr>) \<and>
   CHR ''.'' \<notin> set ''DELE''"
  by (simp add: set_id_def split_id_def)

section \<open>Sticky behaviour tokens\<close>

lemma values_dom:
  "values s \<noteq> None \<longleftrightarrow> s \<in> {''cycle'', ''dblclick'', ''latch'', ''lock''}"
  by (simp add: values_def)

text \<open>
  C9 (as amended). \<open>from_string\<close> returns the enum value of each of the four tokens
  \<open>cycle\<close>, \<open>dblclick\<close>, \<open>latch\<close> and \<open>lock\<close>; for every other string it fails with
  \<open>KeyError\<close>, the error of the dictionary subscript (as its docstring says), and so
  never returns a default value: a value is returned only for one of the four tokens.
\<close>

theorem from_string_tokens:
  "from_string ''cycle'' = Inr CYCLE \<and>
   from_string ''dblclick'' = Inr DOUBLE_CLICK \<and>
   from_string ''latch'' = Inr LATCH_ONLY \<and>
   from_string ''lock'' = Inr LOCK_ONLY \<and>
   (s \<notin> {''cycle'', ''dblclick'', ''latch'', ''lock''} \<longrightarrow> from_string s = Inl KeyError) \<and>
   (\<forall>v. from_string s = Inr v \<longrightarrow> s \<in> {''cycle'', ''dblclick'', ''latch'', ''lock''})"
proof -
  have known: "from_string ''cycle'' = Inr CYCLE" "from_string ''dblclick'' = Inr DOUBLE_CLICK"
    "from_string ''latch'' = Inr LATCH_ONLY" "from_string ''lock'' = Inr LOCK_ONLY"
    by (simp_all add: from_string_def values_def)
  have unknown: "from_string s = Inl KeyError"
    if "s \<notin> {''cycle'', ''dblclick'', ''latch'', ''lock''}"
    using that values_dom [of s] by (simp add: from_string_def)
  have returned: "s \<in> {''cycle'', ''dblclick'', ''latch'', ''lock''}"
    if "from_string s = Inr v" for v
  proof (rule ccontr)
    assume "s \<notin> {''cycle'', ''dblclick'', ''latch'', ''lock''}"
    then have "from_string s = Inl KeyError" by (rule unknown)
    with that show False by simp
  qed
  from known unknown returned show ?thesis by blast
qed

theorem from_string_tokens_witness:
  "''toggle'' \<notin> {''cycle'', ''dblclick'', ''latch'', ''lock''} \<and>
   from_string ''toggle'' = Inl KeyError \<and>
   from_string ''lock'' = Inr LOCK_ONLY \<and>
   ''lock'' \<in> {''cycle'', ''dblclick'', ''latch'', ''lock''}"
  using from_string_tokens [of "''toggle''"] from_string_tokens [of "''lock''"] by simp

text \<open>
  The claim as stated, a \<open>ConfigurationError\<close> for an unrecognised token, fails: the
  unrecognised token \<open>toggle\<close> raises \<open>KeyError\<close>.
\<close>

theorem from_string_error_counterexample:
  "from_string ''toggle'' = Inl KeyError \<and> from_string ''toggle'' \<noteq> Inl ConfigurationError"
  by (simp add: from_string_def values_def)

section \<open>Layer index\<close>

lemma digit_not_space: "is_digit c \<Longrightarrow> \<not> py_isspace c"
  by (auto simp: is_digit_def py_isspace_def)

lemma digit_not_sign: "is_digit c \<Longrightarrow> c \<noteq> CHR ''-'' \<and> c \<noteq> CHR ''+'' \<and> c \<noteq> CHR ''_''"
  by (auto simp: is_digit_def)

lemma sign_not_space: "\<not> py_isspace (CHR ''-'')" "\<not> py_isspace (CHR ''+'')"
  by (simp_all add: py_isspace_def)

text \<open>The grammar of digit groups, read from left to right.\<close>

lemma digit_groups_Nil: "\<not> digit_groups []"
  by (simp add: digit_groups_def)

lemma digit_groups_nondigit: "\<not> is_digit d \<Longrightarrow> \<not> digit_groups (d # ds)"
  by (auto simp: digit_groups_def split: list.splits)

lemma digit_groups_single: "is_digit c \<Longrightarrow> digit_groups [c]"
  using digit_not_sign [of c] by (simp add: digit_groups_def)

lemma split_on_not_Nil: "split_on sep s \<noteq> []"
  by (induction s) (auto split: list.splits)

lemma digit_groups_digit_digit:
  assumes "is_digit c" "is_digit d"
  shows "digit_groups (c # d # ds) \<longleftrightarrow> digit_groups (d # ds)"
proof -
  obtain w ws where w: "split_on (CHR ''_'') (d # ds) = w # ws"
    using split_on_not_Nil [of "CHR ''_''" "d # ds"] by (cases "split_on (CHR ''_'') (d # ds)") auto
  have "split_on (CHR ''_'') (c # d # ds) = (c # w) # ws"
    using digit_not_sign [OF assms(1)] w by simp
  moreover have "w \<noteq> []"
    using digit_not_sign [OF assms(2)] w by (auto split: list.splits)
  ultimately show ?thesis
    using assms(1) w by (simp add: digit_groups_def)
qed

lemma digit_groups_digit_underscore:
  assumes "is_digit c"
  shows "digit_groups (c # CHR ''_'' # ds) \<longleftrightarrow> digit_groups ds"
  using assms digit_not_sign [OF assms] by (simp add: digit_groups_def)

lemma digit_groups_digit_other:
  assumes "is_digit c" "\<not> is_digit d" "d \<noteq> CHR ''_''"
  shows "\<not> digit_groups (c # d # ds)"
  using assms digit_not_sign [OF assms(1)]
  by (auto simp: digit_groups_def split: list.splits)

lemma more_digits_groups:
  "is_digit c0 \<Longrightarrow>
     more_digits acc cs = Some m \<longleftrightarrow>
       digit_groups (c0 # cs) \<and>
       m = foldl (\<lambda>acc c. 10 * acc + digit_val c) acc (filter is_digit cs)"
proof (induction acc cs arbitrary: c0 rule: more_digits.induct)
  case (1 acc)
  then show ?case by (auto simp: digit_groups_single)
next
  case (2 acc c cs)
  show ?case
  proof (cases "is_digit c")
    case True
    from 2(1) [OF True True]
    have "more_digits (10 * acc + digit_val c) cs = Some m \<longleftrightarrow>
      digit_groups (c # cs) \<and>
      m = foldl (\<lambda>acc c. 10 * acc + digit_val c) (10 * acc + digit_val c) (filter is_digit cs)" .
    with True 2(3) show ?thesis
      by (simp add: digit_groups_digit_digit)
  next
    case False
    show ?thesis
    proof (cases "c = CHR ''_''")
      case other: False
      with False 2(3) show ?thesis
        by (simp add: digit_groups_digit_other)
    next
      case True
      show ?thesis
      proof (cases cs)
        case Nil
        with True False 2(3) show ?thesis
          by (simp add: digit_groups_digit_underscore digit_groups_Nil)
      next
        case (Cons d ds)
        show ?thesis
        proof (cases "is_digit d")
          case digit: True
          from 2(2) [OF False True Cons digit digit]
          have "more_digits (10 * acc + digit_val d) ds = Some m \<longleftrightarrow>
            digit_groups (d # ds) \<and>
            m = foldl (\<lambda>acc c. 10 * acc + digit_val c) (10 * acc + digit_val d) (filter is_digit ds)" .
          with True False Cons digit 2(3) show ?thesis
            by (simp add: digit_groups_digit_underscore)
        next
          case nondigit: False
          with True False Cons 2(3) show ?thesis
            by (simp add: digit_groups_digit_underscore digit_groups_nondigit)
        qed
      qed
    qed
  qed
qed

lemma digits_groups:
  "digits body = Some m \<longleftrightarrow>
     digit_groups body \<and> m = numeral_value (filter is_digit body)"
proof (cases body)
  case Nil
  then show ?thesis by (simp add: digits_def digit_groups_Nil)
next
  case (Cons c cs)
  show ?thesis
  proof (cases "is_digit c")
    case True
    with Cons more_digits_groups [OF True, of "digit_val c" cs m] show ?thesis
      by (simp add: digits_def numeral_value_def)
  next
    case False
    with Cons show ?thesis by (simp add: digits_def digit_groups_nondigit)
  qed
qed

lemma digit_groups_hd: "digit_groups body \<Longrightarrow> body \<noteq> [] \<and> is_digit (hd body)"
  using digit_groups_Nil digit_groups_nondigit by (cases body) auto

lemma digit_groups_last: "digit_groups body \<Longrightarrow> is_digit (last body)"
proof (induction body rule: length_induct)
  case (1 body)
  from 1(1) have ih: "is_digit (last ys)" if "length ys < length body" "digit_groups ys" for ys
    using that by blast
  from 1(2) obtain c cs where body: "body = c # cs" and c: "is_digit c"
    using digit_groups_hd [OF 1(2)] by (cases body) auto
  show ?case
  proof (cases cs)
    case Nil
    with body c show ?thesis by simp
  next
    case (Cons d ds)
    show ?thesis
    proof (cases "is_digit d")
      case True
      with 1(2) body Cons c have "digit_groups (d # ds)"
        by (simp add: digit_groups_digit_digit)
      moreover have "length (d # ds) < length body" using body Cons by simp
      ultimately have "is_digit (last (d # ds))" using ih by blast
      with body Cons show ?thesis by simp
    next
      case False
      with 1(2) body Cons c have d: "d = CHR ''_''"
        using digit_groups_digit_other by blast
      with 1(2) body Cons c have groups: "digit_groups ds"
        by (simp add: digit_groups_digit_underscore)
      moreover have "length ds < length body" using body Cons by simp
      ultimately have "is_digit (last ds)" using ih by blast
      moreover from groups have "ds \<noteq> []" using digit_groups_Nil by auto
      ultimately show ?thesis using body Cons by simp
    qed
  qed
qed

lemma strip_decomposition:
  "\<exists>ws1 ws2. s = ws1 @ strip s @ ws2 \<and> list_all py_isspace ws1 \<and> list_all py_isspace ws2"
proof -
  let ?u = "dropWhile py_isspace s"
  have front: "s = takeWhile py_isspace s @ ?u" by simp
  have "rev (dropWhile py_isspace (rev ?u)) @ rev (takeWhile py_isspace (rev ?u)) =
      rev (takeWhile py_isspace (rev ?u) @ dropWhile py_isspace (rev ?u))"
    by (simp only: rev_append)
  also have "\<dots> = ?u"
    by (simp only: takeWhile_dropWhile_id rev_rev_ident)
  finally have rear: "?u = strip s @ rev (takeWhile py_isspace (rev ?u))"
    by (simp only: strip_def)
  have "list_all py_isspace (takeWhile py_isspace s)"
    by (auto simp: list_all_iff dest: set_takeWhileD)
  moreover have "list_all py_isspace (rev (takeWhile py_isspace (rev ?u)))"
    by (auto simp: list_all_iff dest: set_takeWhileD)
  moreover have "s = takeWhile py_isspace s @ strip s @ rev (takeWhile py_isspace (rev ?u))"
    using front rear by metis
  ultimately show ?thesis by blast
qed

lemma strip_between:
  assumes "list_all py_isspace ws1" "list_all py_isspace ws2"
    and "t \<noteq> []" "\<not> py_isspace (hd t)" "\<not> py_isspace (last t)"
  shows "strip (ws1 @ t @ ws2) = t"
proof -
  have front: "dropWhile py_isspace (ws1 @ t @ ws2) = t @ ws2"
    using assms(1,3,4) by (cases t) (auto simp: list_all_iff dropWhile_append)
  have "dropWhile py_isspace (rev ws2 @ rev t) = rev t"
    using assms(2,3,5) by (cases "rev t") (auto simp: list_all_iff dropWhile_append hd_rev)
  with front show ?thesis by (simp add: strip_def)
qed

text \<open>\<^verbatim>\<open>int\<close> returns a number exactly for the literals, and the number is theirs.\<close>

lemma py_int_literal: "py_int limit s = Inr n \<longleftrightarrow> int_literal limit s n"
proof
  assume run: "py_int limit s = Inr n"
  let ?t = "strip s"
  let ?signed = "?t \<noteq> [] \<and> (hd ?t = CHR ''-'' \<or> hd ?t = CHR ''+'')"
  let ?body = "if ?signed then tl ?t else ?t"
  let ?sgn = "if ?signed then [hd ?t] else []"
  from run obtain m where m: "digits ?body = Some m"
    by (auto simp: py_int_def Let_def split: option.splits)
  with run have limit: "limit = 0 \<or> length (filter is_digit ?body) \<le> limit"
    and n: "n = (if ?t \<noteq> [] \<and> hd ?t = CHR ''-'' then - int m else int m)"
    by (auto simp: py_int_def Let_def split: if_splits)
  from m have groups: "digit_groups ?body" and number: "m = numeral_value (filter is_digit ?body)"
    using digits_groups by blast+
  obtain ws1 ws2 where ws: "s = ws1 @ ?t @ ws2" "list_all py_isspace ws1" "list_all py_isspace ws2"
    using strip_decomposition by blast
  have t: "?t = ?sgn @ ?body" by (cases ?t) auto
  have sgn: "?sgn = [] \<or> ?sgn = ''+'' \<or> ?sgn = ''-''" by auto
  have minus: "?sgn = ''-'' \<longleftrightarrow> ?t \<noteq> [] \<and> hd ?t = CHR ''-''" by auto
  have "s = ws1 @ ?sgn @ ?body @ ws2" using ws(1) t by (metis append_assoc)
  moreover have "n = (if ?sgn = ''-'' then - int (numeral_value (filter is_digit ?body))
      else int (numeral_value (filter is_digit ?body)))"
    using n number minus by presburger
  ultimately show "int_literal limit s n"
    unfolding int_literal_def using ws(2,3) sgn groups limit by blast
next
  assume "int_literal limit s n"
  then obtain ws1 sgn body ws2 where s: "s = ws1 @ sgn @ body @ ws2"
    and ws: "list_all py_isspace ws1" "list_all py_isspace ws2"
    and sgn: "sgn = [] \<or> sgn = ''+'' \<or> sgn = ''-''"
    and groups: "digit_groups body"
    and limit: "limit = 0 \<or> length (filter is_digit body) \<le> limit"
    and n: "n = (if sgn = ''-'' then - int (numeral_value (filter is_digit body))
             else int (numeral_value (filter is_digit body)))"
    unfolding int_literal_def by blast
  from groups have body: "body \<noteq> []" "is_digit (hd body)" "is_digit (last body)"
    using digit_groups_hd digit_groups_last by blast+
  let ?t = "sgn @ body"
  have t: "?t \<noteq> []" using body(1) by simp
  have first: "\<not> py_isspace (hd ?t)"
    using sgn body(1,2) digit_not_space sign_not_space by (auto simp: hd_append)
  have final: "\<not> py_isspace (last ?t)"
    using body(1,3) digit_not_space by simp
  have "strip (ws1 @ ?t @ ws2) = ?t"
    by (rule strip_between [OF ws t first final])
  then have strip: "strip s = sgn @ body" using s by simp
  have digits: "digits body = Some (numeral_value (filter is_digit body))"
    using digits_groups groups by blast
  from sgn show "py_int limit s = Inr n"
  proof (elim disjE)
    assume "sgn = []"
    moreover have "hd body \<noteq> CHR ''-''" "hd body \<noteq> CHR ''+''"
      using digit_not_sign [OF body(2)] by blast+
    ultimately show ?thesis
      using strip body(1) digits limit n by (auto simp: py_int_def Let_def)
  next
    assume "sgn = ''+''"
    then show ?thesis
      using strip digits limit n by (auto simp: py_int_def Let_def)
  next
    assume "sgn = ''-''"
    then show ?thesis
      using strip digits limit n by (auto simp: py_int_def Let_def)
  qed
qed

lemma digits_only_groups: "ds \<noteq> [] \<Longrightarrow> list_all is_digit ds \<Longrightarrow> digit_groups ds"
proof (induction ds)
  case Nil
  then show ?case by simp
next
  case (Cons c cs)
  then show ?case
    by (cases cs) (simp_all add: digit_groups_single digit_groups_digit_digit)
qed

lemma digits_only_filter: "list_all is_digit ds \<Longrightarrow> filter is_digit ds = ds"
  by (simp add: list_all_iff)

lemma py_int_digits:
  assumes "ds \<noteq> []" "list_all is_digit ds" "limit = 0 \<or> length ds \<le> limit"
  shows "py_int limit ds = Inr (int (numeral_value ds))"
proof -
  have "int_literal limit ([] @ [] @ ds @ []) (int (numeral_value ds))"
    unfolding int_literal_def
    using digits_only_groups [OF assms(1,2)] digits_only_filter [OF assms(2)] assms(3)
    by (intro exI [of _ "[]"] exI [of _ ds]) simp
  then show ?thesis by (simp add: py_int_literal)
qed

lemma py_int_too_long:
  assumes "list_all is_digit ds" "0 < limit" "limit < length ds"
  shows "py_int limit ds = Inl ValueError"
proof -
  from assms(3) have ne: "ds \<noteq> []" by auto
  with assms(1) have edges: "is_digit (hd ds)" "is_digit (last ds)"
    by (auto simp: list_all_iff)
  then have "\<not> py_isspace (hd ds)" "\<not> py_isspace (last ds)"
    using digit_not_space by blast+
  with ne have "strip ([] @ ds @ []) = ds"
    by (intro strip_between) simp_all
  then have strip: "strip ds = ds" by simp
  have unsigned: "hd ds \<noteq> CHR ''-''" "hd ds \<noteq> CHR ''+''"
    using digit_not_sign [OF edges(1)] by blast+
  have "digits ds = Some (numeral_value (filter is_digit ds))"
    using digits_groups digits_only_groups [OF ne assms(1)] by blast
  then show ?thesis
    using strip unsigned assms digits_only_filter [OF assms(1)]
    by (simp add: py_int_def Let_def)
qed

lemma startswith_iff: "startswith s p \<longleftrightarrow> (\<exists>r. s = p @ r)"
  unfolding startswith_def
  by (metis append_eq_conv_conj append_take_drop_id)

text \<open>
  C10. When \<open>is_layer_button\<close> holds, \<open>get_layer_index\<close> is \<^verbatim>\<open>int\<close> of the id after
  its first five characters; when it does not hold and assertions are checked, the result
  is \<open>AssertionError\<close>. The precondition is not enough for an integer: the ids \<open>layer\<close>
  and \<open>layerA\<close> satisfy it and end in \<open>ValueError\<close>. With assertions checked an
  integer is returned exactly for an id made of \<open>layer\<close> and a decimal integer literal,
  and it is the number of that literal. So \<open>layer\<close> followed by one or more decimal
  digits returns their number when they are within the interpreter's digit limit, and
  ends in \<open>ValueError\<close> when they are more.
\<close>

theorem get_layer_index_partial:
  "(is_layer_button self \<longrightarrow>
      get_layer_index debug limit self = py_int limit (drop 5 (key_id self))) \<and>
   (\<not> is_layer_button self \<longrightarrow> get_layer_index True limit self = Inl AssertionError) \<and>
   is_layer_button (self\<lparr>key_id := ''layer''\<rparr>) \<and>
   get_layer_index debug limit (self\<lparr>key_id := ''layer''\<rparr>) = Inl ValueError \<and>
   is_layer_button (self\<lparr>key_id := ''layerA''\<rparr>) \<and>
   get_layer_index debug limit (self\<lparr>key_id := ''layerA''\<rparr>) = Inl ValueError \<and>
   (get_layer_index True limit self = Inr n \<longleftrightarrow>
      (\<exists>suffix. key_id self = ''layer'' @ suffix \<and> int_literal limit suffix n)) \<and>
   (ds \<noteq> [] \<and> list_all is_digit ds \<and> (limit = 0 \<or> length ds \<le> limit) \<longrightarrow>
      get_layer_index debug limit (self\<lparr>key_id := ''layer'' @ ds\<rparr>) =
        Inr (int (numeral_value ds))) \<and>
   (list_all is_digit ds \<and> 0 < limit \<and> limit < length ds \<longrightarrow>
      get_layer_index debug limit (self\<lparr>key_id := ''layer'' @ ds\<rparr>) = Inl ValueError)"
proof -
  have holds: "get_layer_index debug limit self = py_int limit (drop 5 (key_id self))"
    if "is_layer_button self"
    using that by (simp add: get_layer_index_def)
  have fails: "get_layer_index True limit self = Inl AssertionError" if "\<not> is_layer_button self"
    using that by (simp add: get_layer_index_def)
  have empty: "is_layer_button (self\<lparr>key_id := ''layer''\<rparr>)"
    "get_layer_index debug limit (self\<lparr>key_id := ''layer''\<rparr>) = Inl ValueError"
    by (simp_all add: get_layer_index_def is_layer_button_def startswith_def py_int_def
        strip_def digits_def)
  have letter: "is_layer_button (self\<lparr>key_id := ''layerA''\<rparr>)"
    "get_layer_index debug limit (self\<lparr>key_id := ''layerA''\<rparr>) = Inl ValueError"
    by (simp_all add: get_layer_index_def is_layer_button_def startswith_def py_int_def
        strip_def py_isspace_def digits_def is_digit_def)
  have literal: "get_layer_index True limit self = Inr n \<longleftrightarrow>
      (\<exists>suffix. key_id self = ''layer'' @ suffix \<and> int_literal limit suffix n)"
  proof
    assume n: "get_layer_index True limit self = Inr n"
    then have button: "is_layer_button self"
      by (auto simp: get_layer_index_def split: if_splits)
    then obtain suffix where suffix: "key_id self = ''layer'' @ suffix"
      unfolding is_layer_button_def startswith_iff by blast
    from n button have "py_int limit (drop 5 (key_id self)) = Inr n"
      by (simp add: get_layer_index_def)
    with suffix have "int_literal limit suffix n" by (simp add: py_int_literal)
    with suffix show "\<exists>suffix. key_id self = ''layer'' @ suffix \<and> int_literal limit suffix n"
      by blast
  next
    assume "\<exists>suffix. key_id self = ''layer'' @ suffix \<and> int_literal limit suffix n"
    then obtain suffix where suffix: "key_id self = ''layer'' @ suffix"
      and n: "int_literal limit suffix n" by blast
    from suffix have "is_layer_button self"
      unfolding is_layer_button_def startswith_iff by blast
    with suffix n show "get_layer_index True limit self = Inr n"
      by (simp add: get_layer_index_def py_int_literal)
  qed
  have button: "is_layer_button (self\<lparr>key_id := ''layer'' @ ds\<rparr>)"
    by (simp add: is_layer_button_def startswith_def)
  have numeral: "get_layer_index debug limit (self\<lparr>key_id := ''layer'' @ ds\<rparr>) =
      Inr (int (numeral_value ds))"
    if "ds \<noteq> [] \<and> list_all is_digit ds \<and> (limit = 0 \<or> length ds \<le> limit)"
  proof -
    from that have "py_int limit ds = Inr (int (numeral_value ds))"
      by (intro py_int_digits) blast+
    with button show ?thesis by (simp add: get_layer_index_def)
  qed
  have too_long: "get_layer_index debug limit (self\<lparr>key_id := ''layer'' @ ds\<rparr>) = Inl ValueError"
    if "list_all is_digit ds \<and> 0 < limit \<and> limit < length ds"
  proof -
    from that have "py_int limit ds = Inl ValueError"
      by (intro py_int_too_long) blast+
    with button show ?thesis by (simp add: get_layer_index_def)
  qed
  from holds fails empty letter literal numeral too_long show ?thesis by blast
qed

theorem get_layer_index_partial_witness:
  "is_layer_button (RectKeyCommon ''layer12'') \<and>
   get_layer_index True 4300 (RectKeyCommon ''layer12'') = Inr 12 \<and>
   int_literal 4300 ''12'' 12 \<and>
   \<not> is_layer_button (RectKeyCommon ''DELE'') \<and>
   get_layer_index True 4300 (RectKeyCommon ''DELE'') = Inl AssertionError \<and>
   get_layer_index True 4300 (RectKeyCommon ''layer'') = Inl ValueError \<and>
   get_layer_index True 4300 (RectKeyCommon ''layerA'') = Inl ValueError \<and>
   get_layer_index True 4300 (RectKeyCommon (''layer'' @ replicate 4301 (CHR ''1''))) =
     Inl ValueError"
proof -
  note layer12 = get_layer_index_partial
    [where self = "RectKeyCommon ''layer12''" and debug = True and limit = 4300
       and ds = "''12''" and n = 12]
  note dele = get_layer_index_partial
    [where self = "RectKeyCommon ''DELE''" and debug = True and limit = 4300
       and ds = "replicate 4301 (CHR ''1'')" and n = 12]
  have button: "is_layer_button (RectKeyCommon ''layer12'')"
    and other: "\<not> is_layer_button (RectKeyCommon ''DELE'')"
    by (simp_all add: is_layer_button_def startswith_def RectKeyCommon_def)
  have digits: "''12'' \<noteq> [] \<and> list_all is_digit ''12'' \<and> ((4300::nat) = 0 \<or> length ''12'' \<le> 4300)"
    by (simp add: is_digit_def)
  have twelve: "int (numeral_value ''12'') = 12"
    by (simp add: numeral_value_def digit_val_def)
  have long: "list_all is_digit (replicate 4301 (CHR ''1'')) \<and> (0::nat) < 4300 \<and>
      4300 < length (replicate 4301 (CHR ''1''))"
    by (simp add: list_all_iff is_digit_def)
  have same: "RectKeyCommon ''layer12''\<lparr>key_id := ''layer'' @ ''12''\<rparr> = RectKeyCommon ''layer12''"
    "RectKeyCommon ''layer12''\<lparr>key_id := ''layer''\<rparr> = RectKeyCommon ''layer''"
    "RectKeyCommon ''layer12''\<lparr>key_id := ''layerA''\<rparr> = RectKeyCommon ''layerA''"
    "RectKeyCommon ''DELE''\<lparr>key_id := ''layer'' @ replicate 4301 (CHR ''1'')\<rparr> =
       RectKeyCommon (''layer'' @ replicate 4301 (CHR ''1''))"
    by (simp_all add: RectKeyCommon_def)
  from layer12 digits
  have "get_layer_index True 4300 (RectKeyCommon ''layer12''\<lparr>key_id := ''layer'' @ ''12''\<rparr>) =
      Inr (int (numeral_value ''12''))" by blast
  then have index: "get_layer_index True 4300 (RectKeyCommon ''layer12'') = Inr 12"
    by (simp only: same twelve)
  with layer12
  obtain suffix where "key_id (RectKeyCommon ''layer12'') = ''layer'' @ suffix"
    and "int_literal 4300 suffix 12" by blast
  then have literal: "int_literal 4300 ''12'' 12"
    by (simp add: RectKeyCommon_def)
  from dele other
  have assertion: "get_layer_index True 4300 (RectKeyCommon ''DELE'') = Inl AssertionError"
    by blast
  from layer12
  have "get_layer_index True 4300 (RectKeyCommon ''layer12''\<lparr>key_id := ''layer''\<rparr>) = Inl ValueError"
    "get_layer_index True 4300 (RectKeyCommon ''layer12''\<lparr>key_id := ''layerA''\<rparr>) = Inl ValueError"
    by blast+
  then have errors: "get_layer_index True 4300 (RectKeyCommon ''layer'') = Inl ValueError"
    "get_layer_index True 4300 (RectKeyCommon ''layerA'') = Inl ValueError"
    by (simp_all only: same)
  from dele long
  have "get_layer_index True 4300
      (RectKeyCommon ''DELE''\<lparr>key_id := ''layer'' @ replicate 4301 (CHR ''1'')\<rparr>) = Inl ValueError"
    by blast
  then have limit: "get_layer_index True 4300
      (RectKeyCommon (''layer'' @ replicate 4301 (CHR ''1''))) = Inl ValueError"
    by (simp only: same)
  from button index literal other assertion errors limit show ?thesis by blast
qed

end
